theory Spec2Isabelle
  imports Main "HOL-Library.Word"
begin

section \<open>Go errors\<close>

text \<open>
  Modelled from the spec: the declaration of \<^verbatim>\<open>mqtt.ErrorCode\<close> is not among the sources.
  The constants are the spec's closed set of error codes, of which \<^verbatim>\<open>router.go\<close> uses
  \<^verbatim>\<open>ErrorNotImplemented\<close>, \<^verbatim>\<open>ErrorFormatViolation\<close> and
  \<^verbatim>\<open>ErrorPropertyConstraintViolation\<close>.
\<close>

datatype ErrorCode =
    ErrorNotImplemented
  | ErrorNotSupported
  | ErrorInternalError
  | ErrorProtocolError
  | ErrorSecurityError
  | ErrorFormatViolation
  | ErrorPropertyConstraintViolation
  | ErrorOccurrenceConstraintViolation
  | ErrorTypeConstraintViolation
  | ErrorGenericError

text \<open>
  A non-nil value of Go's interface type \<^verbatim>\<open>error\<close>; the nil interface is \<open>None\<close> of
  \<open>error option\<close>. One constructor per dynamic type that \<^verbatim>\<open>Router.Route\<close> builds or meets:
  \<^item> \<open>ValidationError_ptr p\<close>: a \<^verbatim>\<open>*jsonschema.ValidationError\<close>; \<open>p = None\<close> is the nil
    pointer of that type, which is still a non-nil interface value;
  \<^item> \<open>MqttError code err\<close>: the \<^verbatim>\<open>*mqtt.Error\<close> made by \<^verbatim>\<open>NewError(code, err)\<close>;
  \<^item> \<open>errors_New msg\<close>: \<^verbatim>\<open>errors.New(msg)\<close>;
  \<^item> \<open>fmt_Errorf_s f a\<close>: \<^verbatim>\<open>fmt.Errorf(f, a)\<close> with a single \<^verbatim>\<open>%s\<close> verb;
  \<^item> \<open>fmt_Errorf_w f err\<close>: \<^verbatim>\<open>fmt.Errorf(f, err)\<close> with a single \<^verbatim>\<open>%w\<close> verb;
  \<^item> \<open>fmt_Errorf_sw f a err\<close>: \<^verbatim>\<open>fmt.Errorf(f, a, err)\<close> with \<^verbatim>\<open>%s\<close> then \<^verbatim>\<open>%w\<close>;
  \<^item> \<open>fmt_Errorf_sv f a err\<close>: \<^verbatim>\<open>fmt.Errorf(f, a, err)\<close> with \<^verbatim>\<open>%s\<close> then \<^verbatim>\<open>%v\<close>
    (the text of \<open>err\<close> is copied, \<open>err\<close> is not wrapped);
  \<^item> \<open>ForeignError msg\<close>: an error of any other type (a JSON syntax error, a file-system
    error, a storage error), which wraps nothing.
  The format string and its arguments are kept as they are passed, not rendered.
\<close>

datatype error =
    ValidationError_ptr "string option"
  | MqttError ErrorCode error
  | errors_New string
  | fmt_Errorf_s string string
  | fmt_Errorf_w string error
  | fmt_Errorf_sw string string error
  | fmt_Errorf_sv string string error
  | ForeignError string

text \<open>
  Modelled from the spec: \<^verbatim>\<open>mqtt.NewError\<close> is not among the sources. It pairs one of the
  error codes with the error it wraps; the \<^verbatim>\<open>*mqtt.Error\<close> it returns is taken to unwrap
  to that error.
\<close>

definition NewError :: "ErrorCode \<Rightarrow> error \<Rightarrow> error" where
  "NewError code err = MqttError code err"

text \<open>
  \<^verbatim>\<open>errors.As(err, &target)\<close> for a target of type \<^verbatim>\<open>*jsonschema.ValidationError\<close>.
  Go's \<^verbatim>\<open>errors.As\<close> returns false when the interface \<^verbatim>\<open>err\<close> is nil; otherwise it walks
  the \<^verbatim>\<open>Unwrap\<close> chain and returns true at the first error whose dynamic type is
  assignable to the target's type. The test is on the dynamic type alone, so a nil
  pointer of type \<^verbatim>\<open>*jsonschema.ValidationError\<close> held in the interface matches.
\<close>

fun as_ValidationError :: "error \<Rightarrow> bool" where
  "as_ValidationError (ValidationError_ptr p) = True"
| "as_ValidationError (MqttError code err) = as_ValidationError err"
| "as_ValidationError (fmt_Errorf_w f err) = as_ValidationError err"
| "as_ValidationError (fmt_Errorf_sw f a err) = as_ValidationError err"
| "as_ValidationError (errors_New msg) = False"
| "as_ValidationError (fmt_Errorf_s f a) = False"
| "as_ValidationError (fmt_Errorf_sv f a err) = False"
| "as_ValidationError (ForeignError msg) = False"

fun errors_As_ValidationError :: "error option \<Rightarrow> bool" where
  "errors_As_ValidationError None = False"
| "errors_As_ValidationError (Some err) = as_ValidationError err"

text \<open>
  The classification of an error the claims speak of: \<^verbatim>\<open>errors.As(err, &mqttErr)\<close> for a
  target of type \<^verbatim>\<open>*mqtt.Error\<close>, returning the \<^verbatim>\<open>ErrorCode\<close> of the first
  \<^verbatim>\<open>*mqtt.Error\<close> on the \<^verbatim>\<open>Unwrap\<close> chain, or \<open>None\<close> when the chain holds none.
\<close>

fun error_code :: "error \<Rightarrow> ErrorCode option" where
  "error_code (MqttError code err) = Some code"
| "error_code (fmt_Errorf_w f err) = error_code err"
| "error_code (fmt_Errorf_sw f a err) = error_code err"
| "error_code (ValidationError_ptr p) = None"
| "error_code (errors_New msg) = None"
| "error_code (fmt_Errorf_s f a) = None"
| "error_code (fmt_Errorf_sv f a err) = None"
| "error_code (ForeignError msg) = None"

datatype panic = InterfaceConversionPanic | NilPointerDereference

section \<open>Envelopes\<close>

text \<open>
  Modelled from the spec: the declaration of \<^verbatim>\<open>mqtt.Message\<close> and of \<^verbatim>\<open>MessageType\<close> is
  not among the sources. The envelope has the six fields \<^verbatim>\<open>Route\<close> reads or writes; a
  nil payload is the empty string and a nil \<^verbatim>\<open>State\<close> is \<open>None\<close>. \<open>MessageTypeOther n\<close>
  stands for a value of the underlying type that is none of the three named constants.
\<close>

datatype MessageType =
    MessageTypeCall
  | MessageTypeCallResult
  | MessageTypeCallError
  | MessageTypeOther nat

record 'st Message =
  MessageType :: MessageType
  Action :: string
  MessageId :: string
  RequestPayload :: string
  ResponsePayload :: string
  State :: "'st option"

section \<open>OCPP 1.6 message types\<close>

record Reservation =
  ReservationId :: "64 word"
  ConnectorId :: "64 word"
  ExpiryDate :: string
  IdTag :: string

type_synonym ReservationStatus = string

definition ReservationStatusAccepted :: ReservationStatus where
  "ReservationStatusAccepted = ''Accepted''"

definition ReservationStatusFaulted :: ReservationStatus where
  "ReservationStatusFaulted = ''Faulted''"

definition ReservationStatusOccupied :: ReservationStatus where
  "ReservationStatusOccupied = ''Occupied''"

definition ReservationStatusRejected :: ReservationStatus where
  "ReservationStatusRejected = ''Rejected''"

definition ReservationStatusUnavailable :: ReservationStatus where
  "ReservationStatusUnavailable = ''Unavailable''"

record ReservationResponse =
  Status :: ReservationStatus

text \<open>
  Modelled from the spec: the declarations of \<^verbatim>\<open>ocpp16.AuthorizeJson\<close>,
  \<^verbatim>\<open>ocpp16.AuthorizeResponseJson\<close> and of the status constants are not among the sources.
  The fields are those \<^verbatim>\<open>AuthorizeHandler.HandleCall\<close> reads and writes, the status values
  the strings of the spec's scenarios.
\<close>

record AuthorizeJson =
  IdTag :: string

type_synonym AuthorizeResponseJsonIdTagInfoStatus = string

definition AuthorizeResponseJsonIdTagInfoStatusAccepted :: AuthorizeResponseJsonIdTagInfoStatus where
  "AuthorizeResponseJsonIdTagInfoStatusAccepted = ''Accepted''"

definition AuthorizeResponseJsonIdTagInfoStatusInvalid :: AuthorizeResponseJsonIdTagInfoStatus where
  "AuthorizeResponseJsonIdTagInfoStatusInvalid = ''Invalid''"

record AuthorizeResponseJsonIdTagInfo =
  Status :: AuthorizeResponseJsonIdTagInfoStatus

record AuthorizeResponseJson =
  IdTagInfo :: AuthorizeResponseJsonIdTagInfo

text \<open>
  Non-nil values of the interfaces \<^verbatim>\<open>ocpp.Request\<close> and \<^verbatim>\<open>ocpp.Response\<close>: a dynamic type
  and a pointer of that type, which may itself be nil (\<open>None\<close>). The nil interface is
  \<open>None\<close> of \<open>Request option\<close> and \<open>Response option\<close>. The last constructor stands for
  every message type not modelled here, by its name.
\<close>

datatype Request =
    AuthorizeJson_ptr "AuthorizeJson option"
  | Reservation_ptr "Reservation option"
  | Request_of_type string

datatype Response =
    AuthorizeResponseJson_ptr "AuthorizeResponseJson option"
  | ReservationResponse_ptr "ReservationResponse option"
  | Response_of_type string

section \<open>Effects\<close>

text \<open>
  What the code does besides returning: \<open>logged\<close> holds the calls of \<^verbatim>\<open>log.Printf\<close> and
  \<^verbatim>\<open>slog.Info\<close> in order (format or message, then the arguments as passed), \<open>emitted\<close> the
  envelopes handed to \<^verbatim>\<open>emitter.Emit\<close> in order, each with its charge station id, and
  \<open>world\<close> everything behind the interfaces (the stores, the message bus).
\<close>

datatype LogArg =
    StringArg string
  | ErrorArg error
  | AnyRequest Request
  | AnyResponse Response

datatype LogEntry =
    Printf string "LogArg list"
  | Info string "(string \<times> LogArg) list"

record ('st, 'w) sys =
  world :: 'w
  emitted :: "(string \<times> 'st Message) list"
  logged :: "LogEntry list"

definition log_Printf :: "string \<Rightarrow> LogArg list \<Rightarrow> ('st, 'w) sys \<Rightarrow> ('st, 'w) sys" where
  "log_Printf f args s = s\<lparr>logged := logged s @ [Printf f args]\<rparr>"

definition slog_Info :: "string \<Rightarrow> (string \<times> LogArg) list \<Rightarrow> ('st, 'w) sys \<Rightarrow> ('st, 'w) sys" where
  "slog_Info msg attrs s = s\<lparr>logged := logged s @ [Info msg attrs]\<rparr>"

text \<open>
  The interface \<^verbatim>\<open>Emitter\<close>, declared outside the sources, by its method
  \<^verbatim>\<open>Emit(ctx, chargeStationId, message)\<close> as \<^verbatim>\<open>Route\<close> calls it: an implementation acts on
  the world and may fail. \<open>emitter_Emit\<close> is a call of the method; the envelope is recorded
  in \<open>emitted\<close> whether or not the implementation fails.
\<close>

type_synonym ('ctx, 'st, 'w) Emitter =
  "'ctx \<Rightarrow> string \<Rightarrow> 'st Message \<Rightarrow> 'w \<Rightarrow> error option \<times> 'w"

definition emitter_Emit ::
  "('ctx, 'st, 'w) Emitter \<Rightarrow> 'ctx \<Rightarrow> string \<Rightarrow> 'st Message \<Rightarrow> ('st, 'w) sys
    \<Rightarrow> error option \<times> ('st, 'w) sys" where
  "emitter_Emit emitter ctx chargeStationId message s =
     (case emitter ctx chargeStationId message (world s) of
        (err, w) \<Rightarrow>
          (err, s\<lparr>world := w, emitted := emitted s @ [(chargeStationId, message)]\<rparr>))"

section \<open>Handlers\<close>

text \<open>
  The interfaces \<^verbatim>\<open>handlers.CallHandler\<close> and \<^verbatim>\<open>handlers.CallResultHandler\<close>, by their
  methods \<^verbatim>\<open>HandleCall(ctx, chargeStationId, request)\<close> and
  \<^verbatim>\<open>HandleCallResult(ctx, chargeStationId, request, response, state)\<close>. A handler may log,
  emit calls of its own and use the stores, so it acts on the whole state; it may also
  panic (\<open>Inl\<close>). \<open>'req option\<close> and \<open>'resp option\<close> are the interface values, \<open>None\<close> the
  nil interface.
\<close>

type_synonym ('ctx, 'req, 'resp, 'st, 'w) CallHandler =
  "'ctx \<Rightarrow> string \<Rightarrow> 'req option \<Rightarrow> ('st, 'w) sys
    \<Rightarrow> (panic + ('resp option \<times> error option)) \<times> ('st, 'w) sys"

type_synonym ('ctx, 'req, 'resp, 'st, 'w) CallResultHandler =
  "'ctx \<Rightarrow> string \<Rightarrow> 'req option \<Rightarrow> 'resp option \<Rightarrow> 'st option \<Rightarrow> ('st, 'w) sys
    \<Rightarrow> (panic + error option) \<times> ('st, 'w) sys"

subsection \<open>Authorize (OCPP 1.6)\<close>

text \<open>
  The interface \<^verbatim>\<open>services.TokenStore\<close>, declared outside the sources, by its method
  \<^verbatim>\<open>FindToken(tokenType, id)\<close>, which returns a pointer to a token (nil when there is
  none) and an error; it reads the world. The handler asserts the request's type, which
  panics on any other type and on the nil interface, and reads \<^verbatim>\<open>req.IdTag\<close>, which
  panics on a nil pointer.
\<close>

record ('tok, 'w) AuthorizeHandler =
  TokenStore :: "string \<Rightarrow> string \<Rightarrow> 'w \<Rightarrow> 'tok option \<times> error option"

definition AuthorizeHandler_HandleCall ::
  "('tok, 'w) AuthorizeHandler \<Rightarrow> ('ctx, Request, Response, 'st, 'w) CallHandler" where
  "AuthorizeHandler_HandleCall a ctx chargeStationId request s =
     (case request of
        Some (AuthorizeJson_ptr p) \<Rightarrow>
          (case p of
             None \<Rightarrow> (Inl NilPointerDereference, s)
           | Some req \<Rightarrow>
               (let s1 = log_Printf ''Charge station %s authorize token %s''
                           [StringArg chargeStationId, StringArg (AuthorizeJson.IdTag req)] s;
                    status = AuthorizeResponseJsonIdTagInfoStatusInvalid
                in case TokenStore a ''ISO14443'' (AuthorizeJson.IdTag req) (world s1) of
                     (tok, err) \<Rightarrow>
                       if err \<noteq> None then (Inr (None, err), s1)
                       else
                         (let status' = (if tok \<noteq> None
                                         then AuthorizeResponseJsonIdTagInfoStatusAccepted
                                         else status)
                          in (Inr (Some (AuthorizeResponseJson_ptr (Some
                                  \<lparr>IdTagInfo = \<lparr>AuthorizeResponseJsonIdTagInfo.Status = status'\<rparr>\<rparr>)),
                                None), s1))))
      | _ \<Rightarrow> (Inl InterfaceConversionPanic, s))"

subsection \<open>Reservation result (OCPP 1.6)\<close>

definition ReservationResultHandler_HandleCallResult ::
  "('ctx, Request, Response, 'st, 'w) CallResultHandler" where
  "ReservationResultHandler_HandleCallResult ctx chargeStationId request response state s =
     (case request of
        Some (Reservation_ptr req) \<Rightarrow>
          (case response of
             Some (ReservationResponse_ptr resp) \<Rightarrow>
               (Inr None,
                slog_Info ''Handling Result for reservation: ''
                  [(''request'', AnyRequest (Reservation_ptr req)),
                   (''response'', AnyResponse (ReservationResponse_ptr resp))] s)
           | _ \<Rightarrow> (Inl InterfaceConversionPanic, s))
      | _ \<Rightarrow> (Inl InterfaceConversionPanic, s))"

section \<open>The router\<close>

text \<open>
  The structs \<^verbatim>\<open>handlers.CallRoute\<close> and \<^verbatim>\<open>handlers.CallResultRoute\<close>, declared outside the
  sources, with the fields the route tables of \<^verbatim>\<open>router.go\<close> fill in and \<^verbatim>\<open>Route\<close> reads.
  The fields of a result route carry the prefix \<open>Result\<close>. A route table is a Go map, so a
  lookup of a missing key is \<open>None\<close>.
\<close>

record ('ctx, 'req, 'resp, 'st, 'w) CallRoute =
  NewRequest :: "unit \<Rightarrow> 'req option"
  RequestSchema :: string
  ResponseSchema :: string
  Handler :: "('ctx, 'req, 'resp, 'st, 'w) CallHandler"

record ('ctx, 'req, 'resp, 'st, 'w) CallResultRoute =
  ResultNewRequest :: "unit \<Rightarrow> 'req option"
  ResultNewResponse :: "unit \<Rightarrow> 'resp option"
  ResultRequestSchema :: string
  ResultResponseSchema :: string
  ResultHandler :: "('ctx, 'req, 'resp, 'st, 'w) CallResultHandler"

record ('ctx, 'req, 'resp, 'st, 'w) Router =
  CallRoutes :: "string \<rightharpoonup> ('ctx, 'req, 'resp, 'st, 'w) CallRoute"
  CallResultRoutes :: "string \<rightharpoonup> ('ctx, 'req, 'resp, 'st, 'w) CallResultRoute"

text \<open>
  The functions \<^verbatim>\<open>Route\<close> calls that are not among the sources, taken as parameters:
  \<^verbatim>\<open>schemas.Validate(payload, schemaFS, schemaFile)\<close>, \<^verbatim>\<open>json.Unmarshal(payload, &v)\<close> for a
  request and for a response value \<open>v\<close> (the result is the value \<open>v\<close> holds afterwards)
  and \<^verbatim>\<open>json.Marshal(v)\<close>.
\<close>

record ('fs, 'req, 'resp) Lib =
  schemas_Validate :: "string \<Rightarrow> 'fs \<Rightarrow> string \<Rightarrow> error option"
  json_Unmarshal_Request :: "string \<Rightarrow> 'req option \<Rightarrow> error + 'req option"
  json_Unmarshal_Response :: "string \<Rightarrow> 'resp option \<Rightarrow> error + 'resp option"
  json_Marshal :: "'resp option \<Rightarrow> error + string"

text \<open>
  The body of \<^verbatim>\<open>case MessageTypeCall\<close>, from the validation of the request on. The
  variable \<^verbatim>\<open>validationErr\<close> is declared without a value, so it is the nil pointer, and it
  is this variable, not \<^verbatim>\<open>err\<close>, that the code hands to \<^verbatim>\<open>errors.As\<close>.
\<close>

definition Route_Call ::
  "('fs, 'req, 'resp) Lib \<Rightarrow> ('ctx, 'req, 'resp, 'st, 'w) CallRoute \<Rightarrow> 'ctx \<Rightarrow> string
    \<Rightarrow> 'st Message \<Rightarrow> ('ctx, 'st, 'w) Emitter \<Rightarrow> 'fs \<Rightarrow> ('st, 'w) sys
    \<Rightarrow> (panic + error option) \<times> ('st, 'w) sys" where
  "Route_Call L route ctx chargeStationId message emitter schemaFS s =
     (case schemas_Validate L (RequestPayload message) schemaFS (RequestSchema route) of
        Some err \<Rightarrow>
          (let validationErr = ValidationError_ptr None;
               err' = (if errors_As_ValidationError (Some validationErr)
                       then NewError ErrorFormatViolation err else err)
           in (Inr (Some (fmt_Errorf_sw ''validating %s request: %w'' (Action message) err')), s))
      | None \<Rightarrow>
          (case json_Unmarshal_Request L (RequestPayload message) (NewRequest route ()) of
             Inl err \<Rightarrow>
               (Inr (Some (fmt_Errorf_sw ''unmarshalling %s request payload: %w''
                             (Action message) err)), s)
           | Inr req \<Rightarrow>
               (case Handler route ctx chargeStationId req s of
                  (Inl p, s1) \<Rightarrow> (Inl p, s1)
                | (Inr (resp, Some err), s1) \<Rightarrow> (Inr (Some err), s1)
                | (Inr (None, None), s1) \<Rightarrow>
                    (Inr (Some (fmt_Errorf_s ''no response or error for %s'' (Action message))), s1)
                | (Inr (Some resp, None), s1) \<Rightarrow>
                    (case json_Marshal L (Some resp) of
                       Inl err \<Rightarrow>
                         (Inr (Some (fmt_Errorf_sw ''marshalling %s call response: %w''
                                       (Action message) err)), s1)
                     | Inr responseJson \<Rightarrow>
                         (let s2 = (case schemas_Validate L responseJson schemaFS
                                           (ResponseSchema route) of
                                      Some err \<Rightarrow>
                                        (let mqttErr = NewError ErrorPropertyConstraintViolation err
                                         in log_Printf ''warning: response to %s is not valid: %v''
                                              [StringArg (Action message), ErrorArg mqttErr] s1)
                                    | None \<Rightarrow> s1);
                              out = \<lparr>MessageType = MessageTypeCallResult,
                                     Action = Action message,
                                     MessageId = MessageId message,
                                     RequestPayload = [],
                                     ResponsePayload = responseJson,
                                     State = None\<rparr>
                          in case emitter_Emit emitter ctx chargeStationId out s2 of
                               (Some err, s3) \<Rightarrow>
                                 (Inr (Some (fmt_Errorf_w ''sending call response: %w'' err)), s3)
                             | (None, s3) \<Rightarrow> (Inr None, s3))))))"

text \<open>The body of \<^verbatim>\<open>case MessageTypeCallResult\<close>, from the validation of the request on.\<close>

definition Route_CallResult ::
  "('fs, 'req, 'resp) Lib \<Rightarrow> ('ctx, 'req, 'resp, 'st, 'w) CallResultRoute \<Rightarrow> 'ctx \<Rightarrow> string
    \<Rightarrow> 'st Message \<Rightarrow> 'fs \<Rightarrow> ('st, 'w) sys \<Rightarrow> (panic + error option) \<times> ('st, 'w) sys" where
  "Route_CallResult L route ctx chargeStationId message schemaFS s =
     (case schemas_Validate L (RequestPayload message) schemaFS (ResultRequestSchema route) of
        Some err \<Rightarrow>
          (Inr (Some (fmt_Errorf_sw ''validating %s request: %w'' (Action message) err)), s)
      | None \<Rightarrow>
          (case schemas_Validate L (ResponsePayload message) schemaFS
                  (ResultResponseSchema route) of
             Some err \<Rightarrow>
               (let validationErr = ValidationError_ptr None;
                    err' = (if errors_As_ValidationError (Some validationErr)
                            then NewError ErrorFormatViolation err else err)
                in (Inr (Some (fmt_Errorf_sw ''validating %s response: %w''
                                 (Action message) err')), s))
           | None \<Rightarrow>
               (case json_Unmarshal_Request L (RequestPayload message)
                       (ResultNewRequest route ()) of
                  Inl err \<Rightarrow>
                    (Inr (Some (fmt_Errorf_sw ''unmarshalling %s request payload: %w''
                                  (Action message) err)), s)
                | Inr req \<Rightarrow>
                    (case json_Unmarshal_Response L (ResponsePayload message)
                            (ResultNewResponse route ()) of
                       Inl err \<Rightarrow>
                         (Inr (Some (fmt_Errorf_sv ''unmarshalling %s response payload: %v''
                                       (Action message) err)), s)
                     | Inr resp \<Rightarrow>
                         (case ResultHandler route ctx chargeStationId req resp
                                 (State message) s of
                            (Inl p, s1) \<Rightarrow> (Inl p, s1)
                          | (Inr (Some err), s1) \<Rightarrow> (Inr (Some err), s1)
                          | (Inr None, s1) \<Rightarrow> (Inr None, s1))))))"

text \<open>\<^verbatim>\<open>Router.Route\<close>: the switch on the message type and the two table lookups.\<close>

definition Route ::
  "('fs, 'req, 'resp) Lib \<Rightarrow> ('ctx, 'req, 'resp, 'st, 'w) Router \<Rightarrow> 'ctx \<Rightarrow> string
    \<Rightarrow> 'st Message \<Rightarrow> ('ctx, 'st, 'w) Emitter \<Rightarrow> 'fs \<Rightarrow> ('st, 'w) sys
    \<Rightarrow> (panic + error option) \<times> ('st, 'w) sys" where
  "Route L r ctx chargeStationId message emitter schemaFS s =
     (case MessageType message of
        MessageTypeCall \<Rightarrow>
          (case CallRoutes r (Action message) of
             None \<Rightarrow>
               (Inr (Some (fmt_Errorf_w ''routing request: %w''
                             (NewError ErrorNotImplemented
                                (fmt_Errorf_s ''%s not implemented'' (Action message))))), s)
           | Some route \<Rightarrow>
               Route_Call L route ctx chargeStationId message emitter schemaFS s)
      | MessageTypeCallResult \<Rightarrow>
          (case CallResultRoutes r (Action message) of
             None \<Rightarrow>
               (Inr (Some (fmt_Errorf_w ''routing request: %w''
                             (NewError ErrorNotImplemented
                                (fmt_Errorf_s ''%s result not implemented'' (Action message))))), s)
           | Some route \<Rightarrow>
               Route_CallResult L route ctx chargeStationId message schemaFS s)
      | MessageTypeCallError \<Rightarrow>
          (Inr (Some (errors_New ''we shouldn't get here at the moment'')), s)
      | MessageTypeOther n \<Rightarrow> (Inr None, s))"

section \<open>A test environment\<close>

text \<open>
  Test doubles for the parameters, in the manner of the repository's handler tests: a
  schema file system that lists, for each schema file, the documents it accepts, a
  validator and a JSON codec over a handful of documents, a token store that is a list
  of pairs of token type and id, and an emitter that always succeeds.
\<close>

definition ex_idTag_json :: string where
  "ex_idTag_json = ''{\"idTag\":\"ABC123\"}''"

definition ex_accepted_json :: string where
  "ex_accepted_json = ''{\"idTagInfo\":{\"status\":\"Accepted\"}}''"

definition ex_invalid_json :: string where
  "ex_invalid_json = ''{\"idTagInfo\":{\"status\":\"Invalid\"}}''"

definition ex_reservation_json :: string where
  "ex_reservation_json =
     ''{\"reservationId\":7,\"connectorId\":1,\"expiryDate\":\"2023-06-15T15:05:00Z\",\"idTag\":\"ABC123\"}''"

definition ex_status_json :: string where
  "ex_status_json = ''{\"status\":\"Accepted\"}''"

definition ex_reservation :: Reservation where
  "ex_reservation = \<lparr>ReservationId = 7, ConnectorId = 1,
                      ExpiryDate = ''2023-06-15T15:05:00Z'', Reservation.IdTag = ''ABC123''\<rparr>"

definition ex_Validate :: "string \<Rightarrow> (string \<times> string list) list \<Rightarrow> string \<Rightarrow> error option" where
  "ex_Validate payload schemaFS schemaFile =
     (case map_of schemaFS schemaFile of
        None \<Rightarrow> Some (ForeignError ''open schema: file does not exist'')
      | Some docs \<Rightarrow>
          if payload = ''{'' then Some (ForeignError ''unexpected end of JSON input'')
          else if payload \<in> set docs then None
          else Some (ValidationError_ptr (Some ''document does not validate'')))"

definition ex_Unmarshal_Request :: "string \<Rightarrow> Request option \<Rightarrow> error + Request option" where
  "ex_Unmarshal_Request payload v =
     (case v of
        Some (AuthorizeJson_ptr p) \<Rightarrow>
          if payload = ex_idTag_json
          then Inr (Some (AuthorizeJson_ptr (Some \<lparr>IdTag = ''ABC123''\<rparr>)))
          else Inl (ForeignError ''field idTag in AuthorizeJson: required'')
      | Some (Reservation_ptr p) \<Rightarrow>
          if payload = ex_reservation_json
          then Inr (Some (Reservation_ptr (Some ex_reservation)))
          else Inl (ForeignError ''json: cannot unmarshal into Go value of type ocpp16.Reservation'')
      | Some (Request_of_type t) \<Rightarrow>
          if payload = ''{}'' then Inr v
          else Inl (ForeignError ''json: cannot unmarshal into Go value'')
      | None \<Rightarrow> Inl (ForeignError ''json: cannot unmarshal into Go value of type ocpp.Request''))"

definition ex_Unmarshal_Response :: "string \<Rightarrow> Response option \<Rightarrow> error + Response option" where
  "ex_Unmarshal_Response payload v =
     (case v of
        Some (ReservationResponse_ptr p) \<Rightarrow>
          if payload = ex_status_json
          then Inr (Some (ReservationResponse_ptr (Some \<lparr>ReservationResponse.Status = ReservationStatusAccepted\<rparr>)))
          else Inl (ForeignError ''json: cannot unmarshal into Go value of type ocpp16.ReservationResponse'')
      | _ \<Rightarrow> Inl (ForeignError ''json: cannot unmarshal into Go value''))"

definition ex_Marshal :: "Response option \<Rightarrow> error + string" where
  "ex_Marshal v =
     (case v of
        Some (AuthorizeResponseJson_ptr (Some r)) \<Rightarrow>
          Inr (''{\"idTagInfo\":{\"status\":\"''
               @ AuthorizeResponseJsonIdTagInfo.Status (IdTagInfo r) @ ''\"}}'')
      | Some (Response_of_type t) \<Rightarrow> Inr ''{}''
      | _ \<Rightarrow> Inr ''null'')"

definition ex_Lib :: "((string \<times> string list) list, Request, Response) Lib" where
  "ex_Lib = \<lparr>schemas_Validate = ex_Validate,
             json_Unmarshal_Request = ex_Unmarshal_Request,
             json_Unmarshal_Response = ex_Unmarshal_Response,
             json_Marshal = ex_Marshal\<rparr>"

definition ex_schemaFS :: "(string \<times> string list) list" where
  "ex_schemaFS =
     [(''ocpp16/Authorize.json'', [ex_idTag_json]),
      (''ocpp16/AuthorizeResponse.json'', [ex_accepted_json, ex_invalid_json]),
      (''ocpp16/Heartbeat.json'', [''{}'']),
      (''ocpp16/HeartbeatResponse.json'', []),
      (''ocpp16/ReserveNow.json'', [ex_reservation_json]),
      (''ocpp16/ReserveNowResponse.json'', [ex_status_json])]"

text \<open>A schema file system whose response schema for Authorize accepts no document.\<close>

definition ex_strict_schemaFS :: "(string \<times> string list) list" where
  "ex_strict_schemaFS =
     [(''ocpp16/Authorize.json'', [ex_idTag_json]),
      (''ocpp16/AuthorizeResponse.json'', [])]"

text \<open>A schema file system whose request schema for Authorize does not require the id tag.\<close>

definition ex_lax_schemaFS :: "(string \<times> string list) list" where
  "ex_lax_schemaFS =
     [(''ocpp16/Authorize.json'', [ex_idTag_json, ''{}'']),
      (''ocpp16/AuthorizeResponse.json'', [ex_accepted_json, ex_invalid_json])]"

definition ex_FindToken ::
  "string \<Rightarrow> string \<Rightarrow> (string \<times> string) list \<Rightarrow> (string \<times> string) option \<times> error option" where
  "ex_FindToken tokenType tokenId w =
     (if (tokenType, tokenId) \<in> set w then Some (tokenType, tokenId) else None, None)"

definition ex_failing_FindToken ::
  "string \<Rightarrow> string \<Rightarrow> (string \<times> string) list \<Rightarrow> (string \<times> string) option \<times> error option" where
  "ex_failing_FindToken tokenType tokenId w =
     (None, Some (ForeignError ''token store unavailable''))"

definition ex_AuthorizeHandler :: "(string \<times> string, (string \<times> string) list) AuthorizeHandler" where
  "ex_AuthorizeHandler = \<lparr>TokenStore = ex_FindToken\<rparr>"

definition ex_Emitter :: "(unit, string, (string \<times> string) list) Emitter" where
  "ex_Emitter ctx chargeStationId message w = (None, w)"

definition ex_authorize_route ::
  "(unit, Request, Response, string, (string \<times> string) list) CallRoute" where
  "ex_authorize_route =
     \<lparr>NewRequest = (\<lambda>_. Some (AuthorizeJson_ptr (Some \<lparr>IdTag = []\<rparr>))),
      RequestSchema = ''ocpp16/Authorize.json'',
      ResponseSchema = ''ocpp16/AuthorizeResponse.json'',
      Handler = AuthorizeHandler_HandleCall ex_AuthorizeHandler\<rparr>"

text \<open>A route whose handler returns neither a response nor an error.\<close>

definition ex_heartbeat_route ::
  "(unit, Request, Response, string, (string \<times> string) list) CallRoute" where
  "ex_heartbeat_route =
     \<lparr>NewRequest = (\<lambda>_. Some (Request_of_type ''*ocpp16.HeartbeatJson'')),
      RequestSchema = ''ocpp16/Heartbeat.json'',
      ResponseSchema = ''ocpp16/HeartbeatResponse.json'',
      Handler = (\<lambda>ctx chargeStationId request s. (Inr (None, None), s))\<rparr>"

definition ex_reservation_route ::
  "(unit, Request, Response, string, (string \<times> string) list) CallResultRoute" where
  "ex_reservation_route =
     \<lparr>ResultNewRequest = (\<lambda>_. Some (Reservation_ptr (Some
          \<lparr>ReservationId = 0, ConnectorId = 0, ExpiryDate = [], Reservation.IdTag = []\<rparr>))),
      ResultNewResponse = (\<lambda>_. Some (ReservationResponse_ptr (Some \<lparr>ReservationResponse.Status = []\<rparr>))),
      ResultRequestSchema = ''ocpp16/ReserveNow.json'',
      ResultResponseSchema = ''ocpp16/ReserveNowResponse.json'',
      ResultHandler = ReservationResultHandler_HandleCallResult\<rparr>"

text \<open>A result handler that logs the state it is given.\<close>

definition ex_recording_handler ::
  "(unit, Request, Response, string, (string \<times> string) list) CallResultHandler" where
  "ex_recording_handler ctx chargeStationId request response state s =
     (Inr None,
      slog_Info ''call result''
        [(''state'', StringArg (case state of Some blob \<Rightarrow> blob | None \<Rightarrow> []))] s)"

definition ex_recording_Router ::
  "(unit, Request, Response, string, (string \<times> string) list) Router" where
  "ex_recording_Router =
     \<lparr>CallRoutes = Map.empty,
      CallResultRoutes =
        [''ReserveNow'' \<mapsto> ex_reservation_route\<lparr>ResultHandler := ex_recording_handler\<rparr>]\<rparr>"

definition ex_Router :: "(unit, Request, Response, string, (string \<times> string) list) Router" where
  "ex_Router =
     \<lparr>CallRoutes = [''Authorize'' \<mapsto> ex_authorize_route, ''Heartbeat'' \<mapsto> ex_heartbeat_route],
      CallResultRoutes = [''ReserveNow'' \<mapsto> ex_reservation_route]\<rparr>"

definition ex_sys :: "(string, (string \<times> string) list) sys" where
  "ex_sys = \<lparr>world = [(''ISO14443'', ''ABC123'')], emitted = [], logged = []\<rparr>"

definition ex_call :: "string \<Rightarrow> string \<Rightarrow> string Message" where
  "ex_call action payload =
     \<lparr>MessageType = MessageTypeCall, Action = action, MessageId = ''42'',
      RequestPayload = payload, ResponsePayload = [], State = None\<rparr>"

definition ex_call_result :: "string \<Rightarrow> string \<Rightarrow> string \<Rightarrow> string Message" where
  "ex_call_result action request response =
     \<lparr>MessageType = MessageTypeCallResult, Action = action, MessageId = ''43'',
      RequestPayload = request, ResponsePayload = response, State = Some ''pending-17''\<rparr>"

text \<open>
  The code of the error a call of \<^verbatim>\<open>Route\<close> returned: \<open>None\<close> when it returned nil or an
  error that wraps no \<^verbatim>\<open>*mqtt.Error\<close>, or panicked.
\<close>

definition result_code :: "panic + error option \<Rightarrow> ErrorCode option" where
  "result_code res = (case res of Inr (Some err) \<Rightarrow> error_code err | _ \<Rightarrow> None)"

section \<open>Auxiliary facts about \<open>Route\<close>\<close>

lemma Route_Call_found:
  "MessageType message = MessageTypeCall \<Longrightarrow> CallRoutes r (Action message) = Some route \<Longrightarrow>
   Route L r ctx cs message emitter schemaFS s =
     Route_Call L route ctx cs message emitter schemaFS s"
  by (simp add: Route_def)

lemma Route_CallResult_found:
  "MessageType message = MessageTypeCallResult \<Longrightarrow>
   CallResultRoutes r (Action message) = Some route \<Longrightarrow>
   Route L r ctx cs message emitter schemaFS s =
     Route_CallResult L route ctx cs message schemaFS s"
  by (simp add: Route_def)

lemma Route_Call_handled:
  assumes "schemas_Validate L (RequestPayload message) schemaFS (RequestSchema route) = None"
    and "json_Unmarshal_Request L (RequestPayload message) (NewRequest route ()) = Inr req"
    and "Handler route ctx cs req s = (Inr (Some resp, None), s1)"
    and "json_Marshal L (Some resp) = Inr responseJson"
  shows "Route_Call L route ctx cs message emitter schemaFS s =
     (let s2 = (case schemas_Validate L responseJson schemaFS (ResponseSchema route) of
                  Some err \<Rightarrow>
                    log_Printf ''warning: response to %s is not valid: %v''
                      [StringArg (Action message),
                       ErrorArg (NewError ErrorPropertyConstraintViolation err)] s1
                | None \<Rightarrow> s1);
          out = \<lparr>MessageType = MessageTypeCallResult, Action = Action message,
                 MessageId = MessageId message, RequestPayload = [],
                 ResponsePayload = responseJson, State = None\<rparr>
      in case emitter_Emit emitter ctx cs out s2 of
           (Some err, s3) \<Rightarrow> (Inr (Some (fmt_Errorf_w ''sending call response: %w'' err)), s3)
         | (None, s3) \<Rightarrow> (Inr None, s3))"
  using assms by (simp add: Route_Call_def Let_def split: option.split)

lemma Route_Call_validation_failed:
  "schemas_Validate L (RequestPayload message) schemaFS (RequestSchema route) = Some err \<Longrightarrow>
   Route_Call L route ctx cs message emitter schemaFS s =
     (Inr (Some (fmt_Errorf_sw ''validating %s request: %w'' (Action message)
                   (NewError ErrorFormatViolation err))), s)"
  by (simp add: Route_Call_def)

lemmas ex_defs =
  ex_Lib_def ex_Router_def ex_call_def ex_call_result_def ex_Validate_def ex_schemaFS_def
  ex_strict_schemaFS_def ex_lax_schemaFS_def ex_authorize_route_def ex_heartbeat_route_def
  ex_reservation_route_def ex_Unmarshal_Request_def ex_Unmarshal_Response_def ex_Marshal_def
  ex_Emitter_def ex_sys_def ex_FindToken_def ex_AuthorizeHandler_def ex_idTag_json_def
  ex_accepted_json_def ex_invalid_json_def ex_reservation_json_def ex_status_json_def
  ex_reservation_def

section \<open>Validation of the request\<close>

text \<open>
  C1. A request that fails validation makes \<open>Route\<close> return an error that wraps the code
  \<open>ErrorFormatViolation\<close>; the claim adds that an error of the validator that is not a
  JSON-schema validation error is passed on as it is. The code does the first for every
  error: \<^verbatim>\<open>errors.As\<close> is asked about the nil pointer \<^verbatim>\<open>validationErr\<close>, whose dynamic type
  is the target's, so the test holds whatever \<^verbatim>\<open>err\<close> is (\<open>Route_Call_validation_failed\<close>).
  Here the payload is a truncated document, the validator fails with an error that is
  no \<^verbatim>\<open>*jsonschema.ValidationError\<close>, and \<open>Route\<close> returns it wrapped in
  \<open>ErrorFormatViolation\<close> all the same.
\<close>

theorem Route_Call_reclassifies_foreign_validator_error:
  "schemas_Validate ex_Lib (RequestPayload (ex_call ''Authorize'' ''{'')) ex_schemaFS
       (RequestSchema ex_authorize_route) = Some (ForeignError ''unexpected end of JSON input'')
   \<and> errors_As_ValidationError (Some (ForeignError ''unexpected end of JSON input'')) = False
   \<and> Route ex_Lib ex_Router () ''cs001'' (ex_call ''Authorize'' ''{'') ex_Emitter
        ex_schemaFS ex_sys =
       (Inr (Some (fmt_Errorf_sw ''validating %s request: %w'' ''Authorize''
                     (NewError ErrorFormatViolation
                        (ForeignError ''unexpected end of JSON input'')))), ex_sys)
   \<and> result_code (fst (Route ex_Lib ex_Router () ''cs001'' (ex_call ''Authorize'' ''{'')
                          ex_Emitter ex_schemaFS ex_sys)) = Some ErrorFormatViolation"
  by (simp add: Route_def Route_Call_def result_code_def NewError_def ex_defs)

text \<open>
  C7. A request that passes validation and then fails to decode: the claim has \<open>Route\<close>
  return an error classified as \<open>ErrorFormatViolation\<close>. At the input below the validator
  accepts the empty object, the decoder rejects it, and the error \<open>Route\<close> returns wraps
  no error code at all.
\<close>

theorem Route_Call_decode_failure_counterexample:
  "MessageType (ex_call ''Authorize'' ''{}'') = MessageTypeCall
   \<and> CallRoutes ex_Router (Action (ex_call ''Authorize'' ''{}'')) = Some ex_authorize_route
   \<and> schemas_Validate ex_Lib (RequestPayload (ex_call ''Authorize'' ''{}'')) ex_lax_schemaFS
        (RequestSchema ex_authorize_route) = None
   \<and> json_Unmarshal_Request ex_Lib (RequestPayload (ex_call ''Authorize'' ''{}''))
        (NewRequest ex_authorize_route ()) =
        Inl (ForeignError ''field idTag in AuthorizeJson: required'')
   \<and> fst (Route ex_Lib ex_Router () ''cs001'' (ex_call ''Authorize'' ''{}'') ex_Emitter
            ex_lax_schemaFS ex_sys) =
       Inr (Some (fmt_Errorf_sw ''unmarshalling %s request payload: %w'' ''Authorize''
                    (ForeignError ''field idTag in AuthorizeJson: required'')))
   \<and> result_code (fst (Route ex_Lib ex_Router () ''cs001'' (ex_call ''Authorize'' ''{}'')
                          ex_Emitter ex_lax_schemaFS ex_sys)) \<noteq> Some ErrorFormatViolation"
  by (simp add: Route_def Route_Call_def result_code_def ex_defs)

text \<open>
  C7, as amended. When decoding the request fails, \<open>Route\<close> leaves the state as it was
  and returns the decoder's error wrapped by \<^verbatim>\<open>fmt.Errorf\<close> with \<^verbatim>\<open>%w\<close>, adding no error code
  of its own: the code of the result is the code of the decoder's error.
\<close>

theorem Route_Call_decode_failure_wrapped:
  assumes "MessageType message = MessageTypeCall"
    and "CallRoutes r (Action message) = Some route"
    and "schemas_Validate L (RequestPayload message) schemaFS (RequestSchema route) = None"
    and "json_Unmarshal_Request L (RequestPayload message) (NewRequest route ()) = Inl err"
  shows "Route L r ctx cs message emitter schemaFS s =
           (Inr (Some (fmt_Errorf_sw ''unmarshalling %s request payload: %w''
                         (Action message) err)), s)
       \<and> result_code (fst (Route L r ctx cs message emitter schemaFS s)) = error_code err"
  using assms by (simp add: Route_Call_found Route_Call_def result_code_def)

theorem Route_Call_decode_failure_wrapped_witness:
  "MessageType (ex_call ''Authorize'' ''{}'') = MessageTypeCall
   \<and> CallRoutes ex_Router (Action (ex_call ''Authorize'' ''{}'')) = Some ex_authorize_route
   \<and> schemas_Validate ex_Lib (RequestPayload (ex_call ''Authorize'' ''{}'')) ex_lax_schemaFS
        (RequestSchema ex_authorize_route) = None
   \<and> json_Unmarshal_Request ex_Lib (RequestPayload (ex_call ''Authorize'' ''{}''))
        (NewRequest ex_authorize_route ()) =
        Inl (ForeignError ''field idTag in AuthorizeJson: required'')
   \<and> Route ex_Lib ex_Router () ''cs001'' (ex_call ''Authorize'' ''{}'') ex_Emitter
        ex_lax_schemaFS ex_sys =
       (Inr (Some (fmt_Errorf_sw ''unmarshalling %s request payload: %w'' ''Authorize''
                     (ForeignError ''field idTag in AuthorizeJson: required''))), ex_sys)
   \<and> result_code (fst (Route ex_Lib ex_Router () ''cs001'' (ex_call ''Authorize'' ''{}'')
                          ex_Emitter ex_lax_schemaFS ex_sys)) = None"
proof -
  let ?m = "ex_call ''Authorize'' ''{}''"
  have h1: "MessageType ?m = MessageTypeCall"
    by (simp add: ex_call_def)
  have h2: "CallRoutes ex_Router (Action ?m) = Some ex_authorize_route"
    by (simp add: ex_call_def ex_Router_def)
  have h3: "schemas_Validate ex_Lib (RequestPayload ?m) ex_lax_schemaFS
              (RequestSchema ex_authorize_route) = None"
    by (simp add: ex_defs)
  have h4: "json_Unmarshal_Request ex_Lib (RequestPayload ?m) (NewRequest ex_authorize_route ()) =
              Inl (ForeignError ''field idTag in AuthorizeJson: required'')"
    by (simp add: ex_defs)
  have a: "Action ?m = ''Authorize''"
    by (simp add: ex_call_def)
  note t = Route_Call_decode_failure_wrapped [OF h1 h2 h3 h4, of "()" "''cs001''" ex_Emitter ex_sys]
  have t1: "Route ex_Lib ex_Router () ''cs001'' ?m ex_Emitter ex_lax_schemaFS ex_sys =
              (Inr (Some (fmt_Errorf_sw ''unmarshalling %s request payload: %w'' ''Authorize''
                            (ForeignError ''field idTag in AuthorizeJson: required''))), ex_sys)"
    using t [THEN conjunct1] a by simp
  have t2: "result_code (fst (Route ex_Lib ex_Router () ''cs001'' ?m ex_Emitter ex_lax_schemaFS
                                ex_sys)) = None"
    using t [THEN conjunct2] by simp
  show ?thesis
    using h1 h2 h3 h4 t1 t2 by (intro conjI)
qed

section \<open>The response of a call\<close>

lemma ex_authorize_handled:
  "Handler ex_authorize_route () ''cs001'' (Some (AuthorizeJson_ptr (Some \<lparr>IdTag = ''ABC123''\<rparr>)))
     ex_sys =
   (Inr (Some (AuthorizeResponseJson_ptr (Some
           \<lparr>IdTagInfo = \<lparr>AuthorizeResponseJsonIdTagInfo.Status = ''Accepted''\<rparr>\<rparr>)), None),
    ex_sys\<lparr>logged := [Printf ''Charge station %s authorize token %s''
                         [StringArg ''cs001'', StringArg ''ABC123'']]\<rparr>)"
  by (simp add: ex_defs AuthorizeHandler_HandleCall_def log_Printf_def
      AuthorizeResponseJsonIdTagInfoStatusAccepted_def
      AuthorizeResponseJsonIdTagInfoStatusInvalid_def)

text \<open>
  C2. When the handler's response, serialized, fails validation against the route's
  response schema, \<open>Route\<close> goes on: what it returns is what it returns under a validator
  \<open>V\<close> that accepts the response, the final state differs from that run's only by one
  more log entry, the warning with \<open>ErrorPropertyConstraintViolation\<close>, the CallResult
  envelope is handed to the emitter, and the result is nil unless the emitter fails.
\<close>

theorem Route_Call_invalid_response_only_logged:
  assumes "MessageType message = MessageTypeCall"
    and "CallRoutes r (Action message) = Some route"
    and "schemas_Validate L (RequestPayload message) schemaFS (RequestSchema route) = None"
    and "json_Unmarshal_Request L (RequestPayload message) (NewRequest route ()) = Inr req"
    and "Handler route ctx cs req s = (Inr (Some resp, None), s1)"
    and "json_Marshal L (Some resp) = Inr responseJson"
    and "schemas_Validate L responseJson schemaFS (ResponseSchema route) = Some verr"
    and "V (RequestPayload message) schemaFS (RequestSchema route) = None"
    and "V responseJson schemaFS (ResponseSchema route) = None"
    and "out = \<lparr>MessageType = MessageTypeCallResult, Action = Action message,
                 MessageId = MessageId message, RequestPayload = [],
                 ResponsePayload = responseJson, State = None\<rparr>"
    and "warning = Printf ''warning: response to %s is not valid: %v''
                     [StringArg (Action message),
                      ErrorArg (NewError ErrorPropertyConstraintViolation verr)]"
  shows "fst (Route L r ctx cs message emitter schemaFS s) =
           fst (Route (L\<lparr>schemas_Validate := V\<rparr>) r ctx cs message emitter schemaFS s)
       \<and> snd (Route L r ctx cs message emitter schemaFS s) =
           (snd (Route (L\<lparr>schemas_Validate := V\<rparr>) r ctx cs message emitter schemaFS s))
             \<lparr>logged := logged (snd (Route (L\<lparr>schemas_Validate := V\<rparr>) r ctx cs message
                                        emitter schemaFS s)) @ [warning]\<rparr>
       \<and> emitted (snd (Route L r ctx cs message emitter schemaFS s)) = emitted s1 @ [(cs, out)]
       \<and> fst (Route L r ctx cs message emitter schemaFS s) =
           (case fst (emitter ctx cs out (world s1)) of
              Some err \<Rightarrow> Inr (Some (fmt_Errorf_w ''sending call response: %w'' err))
            | None \<Rightarrow> Inr None)"
proof -
  let ?L' = "L\<lparr>schemas_Validate := V\<rparr>"
  have a: "Route L r ctx cs message emitter schemaFS s =
             (case emitter_Emit emitter ctx cs out
                     (log_Printf ''warning: response to %s is not valid: %v''
                        [StringArg (Action message),
                         ErrorArg (NewError ErrorPropertyConstraintViolation verr)] s1) of
                (Some err, s3) \<Rightarrow> (Inr (Some (fmt_Errorf_w ''sending call response: %w'' err)), s3)
              | (None, s3) \<Rightarrow> (Inr None, s3))"
    using assms(1-7,10) by (simp add: Route_Call_found Route_Call_handled)
  have "Route_Call ?L' route ctx cs message emitter schemaFS s =
          (let s2 = (case schemas_Validate ?L' responseJson schemaFS (ResponseSchema route) of
                  Some err \<Rightarrow>
                    log_Printf ''warning: response to %s is not valid: %v''
                      [StringArg (Action message),
                       ErrorArg (NewError ErrorPropertyConstraintViolation err)] s1
                | None \<Rightarrow> s1);
          out = \<lparr>MessageType = MessageTypeCallResult, Action = Action message,
                 MessageId = MessageId message, RequestPayload = [],
                 ResponsePayload = responseJson, State = None\<rparr>
      in case emitter_Emit emitter ctx cs out s2 of
           (Some err, s3) \<Rightarrow> (Inr (Some (fmt_Errorf_w ''sending call response: %w'' err)), s3)
         | (None, s3) \<Rightarrow> (Inr None, s3))"
    using assms(3-6,8) by (intro Route_Call_handled) simp_all
  then have b: "Route ?L' r ctx cs message emitter schemaFS s =
             (case emitter_Emit emitter ctx cs out s1 of
                (Some err, s3) \<Rightarrow> (Inr (Some (fmt_Errorf_w ''sending call response: %w'' err)), s3)
              | (None, s3) \<Rightarrow> (Inr None, s3))"
    using assms(1,2,9,10) by (simp add: Route_Call_found)
  obtain err w where e: "emitter ctx cs out (world s1) = (err, w)"
    by (cases "emitter ctx cs out (world s1)")
  show ?thesis
    unfolding a b using e assms(11)
    by (cases err) (simp_all add: emitter_Emit_def log_Printf_def)
qed

theorem Route_Call_invalid_response_only_logged_witness:
  "MessageType (ex_call ''Authorize'' ex_idTag_json) = MessageTypeCall
   \<and> CallRoutes ex_Router (Action (ex_call ''Authorize'' ex_idTag_json)) = Some ex_authorize_route
   \<and> schemas_Validate ex_Lib (RequestPayload (ex_call ''Authorize'' ex_idTag_json))
        ex_strict_schemaFS (RequestSchema ex_authorize_route) = None
   \<and> json_Unmarshal_Request ex_Lib (RequestPayload (ex_call ''Authorize'' ex_idTag_json))
        (NewRequest ex_authorize_route ()) =
        Inr (Some (AuthorizeJson_ptr (Some \<lparr>IdTag = ''ABC123''\<rparr>)))
   \<and> json_Marshal ex_Lib (Some (AuthorizeResponseJson_ptr (Some
          \<lparr>IdTagInfo = \<lparr>AuthorizeResponseJsonIdTagInfo.Status = ''Accepted''\<rparr>\<rparr>))) =
        Inr ex_accepted_json
   \<and> schemas_Validate ex_Lib ex_accepted_json ex_strict_schemaFS
        (ResponseSchema ex_authorize_route) =
        Some (ValidationError_ptr (Some ''document does not validate''))
   \<and> fst (Route ex_Lib ex_Router () ''cs001'' (ex_call ''Authorize'' ex_idTag_json)
            ex_Emitter ex_strict_schemaFS ex_sys) =
       fst (Route (ex_Lib\<lparr>schemas_Validate := (\<lambda>payload schemaFS schemaFile. None)\<rparr>) ex_Router ()
              ''cs001'' (ex_call ''Authorize'' ex_idTag_json) ex_Emitter ex_strict_schemaFS ex_sys)
   \<and> fst (Route ex_Lib ex_Router () ''cs001'' (ex_call ''Authorize'' ex_idTag_json)
            ex_Emitter ex_strict_schemaFS ex_sys) = Inr None
   \<and> emitted (snd (Route ex_Lib ex_Router () ''cs001'' (ex_call ''Authorize'' ex_idTag_json)
                      ex_Emitter ex_strict_schemaFS ex_sys)) =
       [(''cs001'', \<lparr>MessageType = MessageTypeCallResult, Action = ''Authorize'',
                     MessageId = ''42'', RequestPayload = [],
                     ResponsePayload = ex_accepted_json, State = None\<rparr>)]
   \<and> logged (snd (Route ex_Lib ex_Router () ''cs001'' (ex_call ''Authorize'' ex_idTag_json)
                     ex_Emitter ex_strict_schemaFS ex_sys)) =
       logged (snd (Route (ex_Lib\<lparr>schemas_Validate := (\<lambda>payload schemaFS schemaFile. None)\<rparr>)
                      ex_Router () ''cs001'' (ex_call ''Authorize'' ex_idTag_json) ex_Emitter
                      ex_strict_schemaFS ex_sys))
       @ [Printf ''warning: response to %s is not valid: %v''
            [StringArg ''Authorize'',
             ErrorArg (MqttError ErrorPropertyConstraintViolation
                         (ValidationError_ptr (Some ''document does not validate'')))]]"
proof -
  let ?m = "ex_call ''Authorize'' ex_idTag_json"
  let ?V = "\<lambda>(payload::string) (schemaFS::(string \<times> string list) list) (schemaFile::string).
              None :: error option"
  have h1: "MessageType ?m = MessageTypeCall"
    by (simp add: ex_call_def)
  have h2: "CallRoutes ex_Router (Action ?m) = Some ex_authorize_route"
    by (simp add: ex_call_def ex_Router_def)
  have h3: "schemas_Validate ex_Lib (RequestPayload ?m) ex_strict_schemaFS
              (RequestSchema ex_authorize_route) = None"
    by (simp add: ex_defs)
  have h4: "json_Unmarshal_Request ex_Lib (RequestPayload ?m) (NewRequest ex_authorize_route ()) =
              Inr (Some (AuthorizeJson_ptr (Some \<lparr>IdTag = ''ABC123''\<rparr>)))"
    by (simp add: ex_defs)
  have h6: "json_Marshal ex_Lib (Some (AuthorizeResponseJson_ptr (Some
              \<lparr>IdTagInfo = \<lparr>AuthorizeResponseJsonIdTagInfo.Status = ''Accepted''\<rparr>\<rparr>))) =
            Inr ex_accepted_json"
    by (simp add: ex_defs)
  have h7: "schemas_Validate ex_Lib ex_accepted_json ex_strict_schemaFS
              (ResponseSchema ex_authorize_route) =
            Some (ValidationError_ptr (Some ''document does not validate''))"
    by (simp add: ex_defs)
  have h8: "?V (RequestPayload ?m) ex_strict_schemaFS (RequestSchema ex_authorize_route) = None"
    by simp
  have h9: "?V ex_accepted_json ex_strict_schemaFS (ResponseSchema ex_authorize_route) = None"
    by simp
  have e: "emitted ex_sys = []" "world ex_sys = [(''ISO14443'', ''ABC123'')]"
    "Action ?m = ''Authorize''" "MessageId ?m = ''42''"
    by (simp_all add: ex_sys_def ex_call_def)
  note t = Route_Call_invalid_response_only_logged [OF h1 h2 h3 h4 ex_authorize_handled h6 h7
      h8 h9 refl refl, of ex_Emitter]
  have t1: "fst (Route ex_Lib ex_Router () ''cs001'' ?m ex_Emitter ex_strict_schemaFS ex_sys) =
            fst (Route (ex_Lib\<lparr>schemas_Validate := ?V\<rparr>) ex_Router () ''cs001'' ?m ex_Emitter
                   ex_strict_schemaFS ex_sys)"
    using t by (rule conjunct1)
  have t3: "emitted (snd (Route ex_Lib ex_Router () ''cs001'' ?m ex_Emitter ex_strict_schemaFS
                            ex_sys)) =
            [(''cs001'', \<lparr>MessageType = MessageTypeCallResult, Action = ''Authorize'',
                          MessageId = ''42'', RequestPayload = [],
                          ResponsePayload = ex_accepted_json, State = None\<rparr>)]"
    using t [THEN conjunct2, THEN conjunct2, THEN conjunct1] e by simp
  have t4: "fst (Route ex_Lib ex_Router () ''cs001'' ?m ex_Emitter ex_strict_schemaFS ex_sys) =
            Inr None"
    using t [THEN conjunct2, THEN conjunct2, THEN conjunct2] by (simp add: ex_Emitter_def)
  have t2: "logged (snd (Route ex_Lib ex_Router () ''cs001'' ?m ex_Emitter ex_strict_schemaFS
                           ex_sys)) =
            logged (snd (Route (ex_Lib\<lparr>schemas_Validate := ?V\<rparr>) ex_Router () ''cs001'' ?m
                           ex_Emitter ex_strict_schemaFS ex_sys))
            @ [Printf ''warning: response to %s is not valid: %v''
                 [StringArg ''Authorize'',
                  ErrorArg (MqttError ErrorPropertyConstraintViolation
                              (ValidationError_ptr (Some ''document does not validate'')))]]"
    using arg_cong [OF t [THEN conjunct2, THEN conjunct1], of logged] e
    by (simp add: NewError_def)
  show ?thesis
    using h1 h2 h3 h4 h6 h7 t1 t3 t4 t2 by (intro conjI)
qed

text \<open>
  C5. When the route is found, the request is valid and decoded, and the handler returns
  a response and no error, which serializes to \<open>responseJson\<close>, \<open>Route\<close> hands exactly one
  envelope to the emitter, for the same charge station: its type is CallResult, its
  Action and MessageId are those of the incoming envelope and its ResponsePayload is
  \<open>responseJson\<close>.
\<close>

theorem Route_Call_emits_CallResult:
  assumes "MessageType message = MessageTypeCall"
    and "CallRoutes r (Action message) = Some route"
    and "schemas_Validate L (RequestPayload message) schemaFS (RequestSchema route) = None"
    and "json_Unmarshal_Request L (RequestPayload message) (NewRequest route ()) = Inr req"
    and "Handler route ctx cs req s = (Inr (Some resp, None), s1)"
    and "json_Marshal L (Some resp) = Inr responseJson"
  shows "emitted (snd (Route L r ctx cs message emitter schemaFS s)) =
           emitted s1 @ [(cs, \<lparr>MessageType = MessageTypeCallResult, Action = Action message,
                               MessageId = MessageId message, RequestPayload = [],
                               ResponsePayload = responseJson, State = None\<rparr>)]"
  using assms
  by (auto simp add: Route_Call_found Route_Call_handled Let_def emitter_Emit_def log_Printf_def
      split: option.splits prod.splits)

theorem Route_Call_emits_CallResult_witness:
  "MessageType (ex_call ''Authorize'' ex_idTag_json) = MessageTypeCall
   \<and> CallRoutes ex_Router (Action (ex_call ''Authorize'' ex_idTag_json)) = Some ex_authorize_route
   \<and> schemas_Validate ex_Lib (RequestPayload (ex_call ''Authorize'' ex_idTag_json)) ex_schemaFS
        (RequestSchema ex_authorize_route) = None
   \<and> json_Unmarshal_Request ex_Lib (RequestPayload (ex_call ''Authorize'' ex_idTag_json))
        (NewRequest ex_authorize_route ()) =
        Inr (Some (AuthorizeJson_ptr (Some \<lparr>IdTag = ''ABC123''\<rparr>)))
   \<and> json_Marshal ex_Lib (Some (AuthorizeResponseJson_ptr (Some
          \<lparr>IdTagInfo = \<lparr>AuthorizeResponseJsonIdTagInfo.Status = ''Accepted''\<rparr>\<rparr>))) =
        Inr ex_accepted_json
   \<and> emitted (snd (Route ex_Lib ex_Router () ''cs001'' (ex_call ''Authorize'' ex_idTag_json)
                      ex_Emitter ex_schemaFS ex_sys)) =
       [(''cs001'', \<lparr>MessageType = MessageTypeCallResult, Action = ''Authorize'',
                     MessageId = ''42'', RequestPayload = [],
                     ResponsePayload = ex_accepted_json, State = None\<rparr>)]"
proof -
  let ?m = "ex_call ''Authorize'' ex_idTag_json"
  have h1: "MessageType ?m = MessageTypeCall"
    by (simp add: ex_call_def)
  have h2: "CallRoutes ex_Router (Action ?m) = Some ex_authorize_route"
    by (simp add: ex_call_def ex_Router_def)
  have h3: "schemas_Validate ex_Lib (RequestPayload ?m) ex_schemaFS
              (RequestSchema ex_authorize_route) = None"
    by (simp add: ex_defs)
  have h4: "json_Unmarshal_Request ex_Lib (RequestPayload ?m) (NewRequest ex_authorize_route ()) =
              Inr (Some (AuthorizeJson_ptr (Some \<lparr>IdTag = ''ABC123''\<rparr>)))"
    by (simp add: ex_defs)
  have h6: "json_Marshal ex_Lib (Some (AuthorizeResponseJson_ptr (Some
              \<lparr>IdTagInfo = \<lparr>AuthorizeResponseJsonIdTagInfo.Status = ''Accepted''\<rparr>\<rparr>))) =
            Inr ex_accepted_json"
    by (simp add: ex_defs)
  have e: "emitted ex_sys = []" "Action ?m = ''Authorize''" "MessageId ?m = ''42''"
    by (simp_all add: ex_sys_def ex_call_def)
  show ?thesis
    using h1 h2 h3 h4 h6 e
      Route_Call_emits_CallResult [OF h1 h2 h3 h4 ex_authorize_handled h6, of ex_Emitter]
    by simp
qed

text \<open>
  C6. A handler that returns neither a response nor an error: the claim has \<open>Route\<close>
  return an error that carries the code \<open>ErrorInternalError\<close>. At the input below the
  handler of the route returns nil twice, and the error \<open>Route\<close> returns is a plain
  \<^verbatim>\<open>fmt.Errorf\<close> value that wraps no error code.
\<close>

theorem Route_Call_nil_response_counterexample:
  "MessageType (ex_call ''Heartbeat'' ''{}'') = MessageTypeCall
   \<and> CallRoutes ex_Router (Action (ex_call ''Heartbeat'' ''{}'')) = Some ex_heartbeat_route
   \<and> Handler ex_heartbeat_route () ''cs001'' (Some (Request_of_type ''*ocpp16.HeartbeatJson''))
        ex_sys = (Inr (None, None), ex_sys)
   \<and> Route ex_Lib ex_Router () ''cs001'' (ex_call ''Heartbeat'' ''{}'') ex_Emitter ex_schemaFS
        ex_sys =
       (Inr (Some (fmt_Errorf_s ''no response or error for %s'' ''Heartbeat'')), ex_sys)
   \<and> result_code (fst (Route ex_Lib ex_Router () ''cs001'' (ex_call ''Heartbeat'' ''{}'')
                          ex_Emitter ex_schemaFS ex_sys)) \<noteq> Some ErrorInternalError"
  by (simp add: Route_def Route_Call_def result_code_def ex_defs)

text \<open>
  C6, as amended. When the handler returns a nil response and a nil error, \<open>Route\<close> returns
  the error \<^verbatim>\<open>no response or error for <Action>\<close>, which carries no error code, and hands
  nothing to the emitter: the state is the one the handler left.
\<close>

theorem Route_Call_nil_response_plain_error:
  assumes "MessageType message = MessageTypeCall"
    and "CallRoutes r (Action message) = Some route"
    and "schemas_Validate L (RequestPayload message) schemaFS (RequestSchema route) = None"
    and "json_Unmarshal_Request L (RequestPayload message) (NewRequest route ()) = Inr req"
    and "Handler route ctx cs req s = (Inr (None, None), s1)"
  shows "Route L r ctx cs message emitter schemaFS s =
           (Inr (Some (fmt_Errorf_s ''no response or error for %s'' (Action message))), s1)
       \<and> result_code (fst (Route L r ctx cs message emitter schemaFS s)) = None
       \<and> emitted (snd (Route L r ctx cs message emitter schemaFS s)) = emitted s1"
  using assms by (simp add: Route_Call_found Route_Call_def result_code_def)

theorem Route_Call_nil_response_plain_error_witness:
  "MessageType (ex_call ''Heartbeat'' ''{}'') = MessageTypeCall
   \<and> CallRoutes ex_Router (Action (ex_call ''Heartbeat'' ''{}'')) = Some ex_heartbeat_route
   \<and> schemas_Validate ex_Lib (RequestPayload (ex_call ''Heartbeat'' ''{}'')) ex_schemaFS
        (RequestSchema ex_heartbeat_route) = None
   \<and> json_Unmarshal_Request ex_Lib (RequestPayload (ex_call ''Heartbeat'' ''{}''))
        (NewRequest ex_heartbeat_route ()) = Inr (Some (Request_of_type ''*ocpp16.HeartbeatJson''))
   \<and> Handler ex_heartbeat_route () ''cs001'' (Some (Request_of_type ''*ocpp16.HeartbeatJson''))
        ex_sys = (Inr (None, None), ex_sys)
   \<and> Route ex_Lib ex_Router () ''cs001'' (ex_call ''Heartbeat'' ''{}'') ex_Emitter ex_schemaFS
        ex_sys =
       (Inr (Some (fmt_Errorf_s ''no response or error for %s'' ''Heartbeat'')), ex_sys)"
proof -
  let ?m = "ex_call ''Heartbeat'' ''{}''"
  have h1: "MessageType ?m = MessageTypeCall"
    by (simp add: ex_call_def)
  have h2: "CallRoutes ex_Router (Action ?m) = Some ex_heartbeat_route"
    by (simp add: ex_call_def ex_Router_def)
  have h3: "schemas_Validate ex_Lib (RequestPayload ?m) ex_schemaFS
              (RequestSchema ex_heartbeat_route) = None"
    by (simp add: ex_defs)
  have h4: "json_Unmarshal_Request ex_Lib (RequestPayload ?m) (NewRequest ex_heartbeat_route ()) =
              Inr (Some (Request_of_type ''*ocpp16.HeartbeatJson''))"
    by (simp add: ex_defs)
  have h5: "Handler ex_heartbeat_route () ''cs001''
              (Some (Request_of_type ''*ocpp16.HeartbeatJson'')) ex_sys = (Inr (None, None), ex_sys)"
    by (simp add: ex_heartbeat_route_def)
  have a: "Action ?m = ''Heartbeat''"
    by (simp add: ex_call_def)
  have t: "Route ex_Lib ex_Router () ''cs001'' ?m ex_Emitter ex_schemaFS ex_sys =
             (Inr (Some (fmt_Errorf_s ''no response or error for %s'' ''Heartbeat'')), ex_sys)"
    using Route_Call_nil_response_plain_error [OF h1 h2 h3 h4 h5, of ex_Emitter] a by simp
  show ?thesis
    using h1 h2 h3 h4 h5 t by (intro conjI)
qed

section \<open>Unknown actions and other message types\<close>

text \<open>
  C3. A Call whose Action has no entry in \<open>CallRoutes\<close>, and likewise a CallResult whose
  Action has no entry in \<open>CallResultRoutes\<close>, leaves the state as it was, so nothing is
  handed to the emitter, and \<open>Route\<close> returns an error that wraps the code
  \<open>ErrorNotImplemented\<close>.
\<close>

theorem Route_unknown_action_NotImplemented:
  assumes "MessageType message = MessageTypeCall \<and> CallRoutes r (Action message) = None
         \<or> MessageType message = MessageTypeCallResult \<and> CallResultRoutes r (Action message) = None"
  shows "snd (Route L r ctx cs message emitter schemaFS s) = s
       \<and> emitted (snd (Route L r ctx cs message emitter schemaFS s)) = emitted s
       \<and> fst (Route L r ctx cs message emitter schemaFS s) \<noteq> Inr None
       \<and> result_code (fst (Route L r ctx cs message emitter schemaFS s)) = Some ErrorNotImplemented"
  using assms by (auto simp add: Route_def result_code_def NewError_def)

theorem Route_unknown_action_NotImplemented_witness:
  "MessageType (ex_call ''Frobnicate'' ''{}'') = MessageTypeCall
   \<and> CallRoutes ex_Router (Action (ex_call ''Frobnicate'' ''{}'')) = None
   \<and> snd (Route ex_Lib ex_Router () ''cs001'' (ex_call ''Frobnicate'' ''{}'') ex_Emitter
            ex_schemaFS ex_sys) = ex_sys
   \<and> result_code (fst (Route ex_Lib ex_Router () ''cs001'' (ex_call ''Frobnicate'' ''{}'')
                          ex_Emitter ex_schemaFS ex_sys)) = Some ErrorNotImplemented
   \<and> MessageType (ex_call_result ''Frobnicate'' ''{}'' ''{}'') = MessageTypeCallResult
   \<and> CallResultRoutes ex_Router (Action (ex_call_result ''Frobnicate'' ''{}'' ''{}'')) = None
   \<and> snd (Route ex_Lib ex_Router () ''cs001'' (ex_call_result ''Frobnicate'' ''{}'' ''{}'')
            ex_Emitter ex_schemaFS ex_sys) = ex_sys
   \<and> result_code (fst (Route ex_Lib ex_Router () ''cs001''
                          (ex_call_result ''Frobnicate'' ''{}'' ''{}'')
                          ex_Emitter ex_schemaFS ex_sys)) = Some ErrorNotImplemented"
proof -
  have a: "MessageType (ex_call ''Frobnicate'' ''{}'') = MessageTypeCall
           \<and> CallRoutes ex_Router (Action (ex_call ''Frobnicate'' ''{}'')) = None"
    by (simp add: ex_call_def ex_Router_def)
  have b: "MessageType (ex_call_result ''Frobnicate'' ''{}'' ''{}'') = MessageTypeCallResult
           \<and> CallResultRoutes ex_Router (Action (ex_call_result ''Frobnicate'' ''{}'' ''{}'')) = None"
    by (simp add: ex_call_result_def ex_Router_def)
  show ?thesis
    using a b
      Route_unknown_action_NotImplemented [of "ex_call ''Frobnicate'' ''{}''" ex_Router
        ex_Lib "()" "''cs001''" ex_Emitter ex_schemaFS ex_sys, OF disjI1, OF a]
      Route_unknown_action_NotImplemented [of "ex_call_result ''Frobnicate'' ''{}'' ''{}''"
        ex_Router ex_Lib "()" "''cs001''" ex_Emitter ex_schemaFS ex_sys, OF disjI2, OF b]
    by simp
qed

text \<open>
  C9. For a message type that is none of Call, CallResult and CallError, \<open>Route\<close> returns
  nil and leaves the state as it was, so nothing is handed to the emitter; for CallError
  it returns an error, again with the state as it was.
\<close>

theorem Route_other_message_types:
  "(MessageType message \<noteq> MessageTypeCall \<and> MessageType message \<noteq> MessageTypeCallResult
      \<and> MessageType message \<noteq> MessageTypeCallError
    \<longrightarrow> Route L r ctx cs message emitter schemaFS s = (Inr None, s))
   \<and> (MessageType message = MessageTypeCallError
    \<longrightarrow> Route L r ctx cs message emitter schemaFS s =
          (Inr (Some (errors_New ''we shouldn't get here at the moment'')), s))"
  by (cases "MessageType message") (simp_all add: Route_def)

theorem Route_other_message_types_witness:
  "Route ex_Lib ex_Router () ''cs001'' ((ex_call ''Heartbeat'' ''{}'')\<lparr>MessageType := MessageTypeOther 7\<rparr>)
     ex_Emitter ex_schemaFS ex_sys = (Inr None, ex_sys)
   \<and> Route ex_Lib ex_Router () ''cs001''
       ((ex_call ''Heartbeat'' ''{}'')\<lparr>MessageType := MessageTypeCallError\<rparr>)
       ex_Emitter ex_schemaFS ex_sys =
       (Inr (Some (errors_New ''we shouldn't get here at the moment'')), ex_sys)"
  using
    Route_other_message_types [of "(ex_call ''Heartbeat'' ''{}'')\<lparr>MessageType := MessageTypeOther 7\<rparr>"
      ex_Lib ex_Router "()" "''cs001''" ex_Emitter ex_schemaFS ex_sys]
    Route_other_message_types [of "(ex_call ''Heartbeat'' ''{}'')\<lparr>MessageType := MessageTypeCallError\<rparr>"
      ex_Lib ex_Router "()" "''cs001''" ex_Emitter ex_schemaFS ex_sys]
  by (simp add: ex_call_def)

section \<open>Call results\<close>

text \<open>
  C8. For a CallResult whose route is found, whose two payloads are valid and decoded
  to \<open>req\<close> and \<open>resp\<close>, \<open>Route\<close> is the call of the route's result handler on \<open>req\<close>, \<open>resp\<close>
  and the \<open>State\<close> of the incoming envelope, as it is: the handler's result and final state
  are \<open>Route\<close>'s.
\<close>

theorem Route_CallResult_passes_State:
  assumes "MessageType message = MessageTypeCallResult"
    and "CallResultRoutes r (Action message) = Some route"
    and "schemas_Validate L (RequestPayload message) schemaFS (ResultRequestSchema route) = None"
    and "schemas_Validate L (ResponsePayload message) schemaFS (ResultResponseSchema route) = None"
    and "json_Unmarshal_Request L (RequestPayload message) (ResultNewRequest route ()) = Inr req"
    and "json_Unmarshal_Response L (ResponsePayload message) (ResultNewResponse route ()) = Inr resp"
  shows "Route L r ctx cs message emitter schemaFS s =
           ResultHandler route ctx cs req resp (State message) s"
proof -
  obtain res s1 where h: "ResultHandler route ctx cs req resp (State message) s = (res, s1)"
    by (cases "ResultHandler route ctx cs req resp (State message) s")
  show ?thesis
    using assms h
    by (simp add: Route_CallResult_found Route_CallResult_def split: sum.split option.split)
qed

theorem Route_CallResult_passes_State_witness:
  "MessageType (ex_call_result ''ReserveNow'' ex_reservation_json ex_status_json) =
     MessageTypeCallResult
   \<and> CallResultRoutes ex_recording_Router
        (Action (ex_call_result ''ReserveNow'' ex_reservation_json ex_status_json)) =
       Some (ex_reservation_route\<lparr>ResultHandler := ex_recording_handler\<rparr>)
   \<and> schemas_Validate ex_Lib
        (RequestPayload (ex_call_result ''ReserveNow'' ex_reservation_json ex_status_json))
        ex_schemaFS
        (ResultRequestSchema (ex_reservation_route\<lparr>ResultHandler := ex_recording_handler\<rparr>)) = None
   \<and> schemas_Validate ex_Lib
        (ResponsePayload (ex_call_result ''ReserveNow'' ex_reservation_json ex_status_json))
        ex_schemaFS
        (ResultResponseSchema (ex_reservation_route\<lparr>ResultHandler := ex_recording_handler\<rparr>)) = None
   \<and> json_Unmarshal_Request ex_Lib
        (RequestPayload (ex_call_result ''ReserveNow'' ex_reservation_json ex_status_json))
        (ResultNewRequest (ex_reservation_route\<lparr>ResultHandler := ex_recording_handler\<rparr>) ()) =
       Inr (Some (Reservation_ptr (Some ex_reservation)))
   \<and> json_Unmarshal_Response ex_Lib
        (ResponsePayload (ex_call_result ''ReserveNow'' ex_reservation_json ex_status_json))
        (ResultNewResponse (ex_reservation_route\<lparr>ResultHandler := ex_recording_handler\<rparr>) ()) =
       Inr (Some (ReservationResponse_ptr (Some
              \<lparr>ReservationResponse.Status = ReservationStatusAccepted\<rparr>)))
   \<and> State (ex_call_result ''ReserveNow'' ex_reservation_json ex_status_json) =
       Some ''pending-17''
   \<and> Route ex_Lib ex_recording_Router () ''cs001''
        (ex_call_result ''ReserveNow'' ex_reservation_json ex_status_json) ex_Emitter
        ex_schemaFS ex_sys =
       (Inr None,
        ex_sys\<lparr>logged := [Info ''call result'' [(''state'', StringArg ''pending-17'')]]\<rparr>)"
proof -
  let ?m = "ex_call_result ''ReserveNow'' ex_reservation_json ex_status_json"
  let ?route = "ex_reservation_route\<lparr>ResultHandler := ex_recording_handler\<rparr>"
  have h1: "MessageType ?m = MessageTypeCallResult"
    by (simp add: ex_call_result_def)
  have h2: "CallResultRoutes ex_recording_Router (Action ?m) = Some ?route"
    by (simp add: ex_call_result_def ex_recording_Router_def)
  have h3: "schemas_Validate ex_Lib (RequestPayload ?m) ex_schemaFS
              (ResultRequestSchema ?route) = None"
    by (simp add: ex_defs)
  have h4: "schemas_Validate ex_Lib (ResponsePayload ?m) ex_schemaFS
              (ResultResponseSchema ?route) = None"
    by (simp add: ex_defs)
  have h5: "json_Unmarshal_Request ex_Lib (RequestPayload ?m) (ResultNewRequest ?route ()) =
              Inr (Some (Reservation_ptr (Some ex_reservation)))"
    by (simp add: ex_Lib_def ex_call_result_def ex_reservation_route_def
        ex_Unmarshal_Request_def)
  have h6: "json_Unmarshal_Response ex_Lib (ResponsePayload ?m) (ResultNewResponse ?route ()) =
              Inr (Some (ReservationResponse_ptr (Some
                     \<lparr>ReservationResponse.Status = ReservationStatusAccepted\<rparr>)))"
    by (simp add: ex_Lib_def ex_call_result_def ex_reservation_route_def
        ex_Unmarshal_Response_def)
  have st: "State ?m = Some ''pending-17''"
    by (simp add: ex_call_result_def)
  have t: "Route ex_Lib ex_recording_Router () ''cs001'' ?m ex_Emitter ex_schemaFS ex_sys =
             (Inr None,
              ex_sys\<lparr>logged := [Info ''call result'' [(''state'', StringArg ''pending-17'')]]\<rparr>)"
    using Route_CallResult_passes_State [OF h1 h2 h3 h4 h5 h6, of "()" "''cs001''" ex_Emitter
        ex_sys] st
    by (simp add: ex_recording_handler_def slog_Info_def ex_sys_def)
  show ?thesis
    using h1 h2 h3 h4 h5 h6 st t by (intro conjI)
qed

text \<open>
  C10. Given a request of type \<^verbatim>\<open>*ocpp16.Reservation\<close> and a response of type
  \<^verbatim>\<open>*ocpp16.ReservationResponse\<close> (nil pointers included), for every context, charge
  station id and state, \<open>ReservationResultHandler_HandleCallResult\<close> does not panic and
  returns nil; it appends one entry to the log and changes nothing else.
\<close>

theorem ReservationResultHandler_HandleCallResult_returns_nil:
  assumes "request = Some (Reservation_ptr req)"
    and "response = Some (ReservationResponse_ptr resp)"
  shows "ReservationResultHandler_HandleCallResult ctx chargeStationId request response state s =
           (Inr None,
            s\<lparr>logged := logged s @
                 [Info ''Handling Result for reservation: ''
                    [(''request'', AnyRequest (Reservation_ptr req)),
                     (''response'', AnyResponse (ReservationResponse_ptr resp))]]\<rparr>)
       \<and> world (snd (ReservationResultHandler_HandleCallResult ctx chargeStationId request
                        response state s)) = world s
       \<and> emitted (snd (ReservationResultHandler_HandleCallResult ctx chargeStationId request
                          response state s)) = emitted s"
  using assms by (simp add: ReservationResultHandler_HandleCallResult_def slog_Info_def)

theorem ReservationResultHandler_HandleCallResult_returns_nil_witness:
  "ReservationResultHandler_HandleCallResult () ''cs001''
     (Some (Reservation_ptr (Some ex_reservation)))
     (Some (ReservationResponse_ptr (Some \<lparr>ReservationResponse.Status = ReservationStatusRejected\<rparr>)))
     (Some ''pending-17'') ex_sys =
     (Inr None,
      ex_sys\<lparr>logged :=
        [Info ''Handling Result for reservation: ''
           [(''request'', AnyRequest (Reservation_ptr (Some ex_reservation))),
            (''response'', AnyResponse (ReservationResponse_ptr (Some
                \<lparr>ReservationResponse.Status = ReservationStatusRejected\<rparr>)))]]\<rparr>)
   \<and> fst (ReservationResultHandler_HandleCallResult () ''cs001'' (Some (Reservation_ptr None))
            (Some (ReservationResponse_ptr None)) (None :: string option) ex_sys) = Inr None"
  using
    ReservationResultHandler_HandleCallResult_returns_nil [OF refl refl, of "()" "''cs001''"
      "Some ex_reservation" "Some \<lparr>ReservationResponse.Status = ReservationStatusRejected\<rparr>"
      "Some ''pending-17''" ex_sys]
    ReservationResultHandler_HandleCallResult_returns_nil [OF refl refl, of "()" "''cs001''"
      None None "None :: string option" ex_sys]
  by (simp add: ex_sys_def)

section \<open>Authorize\<close>

text \<open>
  C4. For an Authorize request with id tag \<open>IdTag req\<close>, the handler's result is decided
  by what \<^verbatim>\<open>FindToken("ISO14443", idTag)\<close> returns. If the store returns no error, the
  handler returns a response and no error, and the status of the response is Accepted
  if and only if the store returned a token, and Invalid if and only if it returned
  none. If the store returns an error, the handler returns that error and no response.
\<close>

theorem AuthorizeHandler_HandleCall_status:
  assumes "request = Some (AuthorizeJson_ptr (Some req))"
    and "TokenStore a ''ISO14443'' (AuthorizeJson.IdTag req) (world s) = (tok, err)"
  shows "(err = None \<longrightarrow>
            (\<exists>status.
               fst (AuthorizeHandler_HandleCall a ctx chargeStationId request s) =
                 Inr (Some (AuthorizeResponseJson_ptr (Some
                        \<lparr>IdTagInfo = \<lparr>AuthorizeResponseJsonIdTagInfo.Status = status\<rparr>\<rparr>)), None)
               \<and> (status = AuthorizeResponseJsonIdTagInfoStatusAccepted) = (tok \<noteq> None)
               \<and> (status = AuthorizeResponseJsonIdTagInfoStatusInvalid) = (tok = None)))
       \<and> (err \<noteq> None \<longrightarrow>
            fst (AuthorizeHandler_HandleCall a ctx chargeStationId request s) = Inr (None, err))"
  using assms
  by (simp add: AuthorizeHandler_HandleCall_def log_Printf_def Let_def
      AuthorizeResponseJsonIdTagInfoStatusAccepted_def
      AuthorizeResponseJsonIdTagInfoStatusInvalid_def)

theorem AuthorizeHandler_HandleCall_status_witness:
  "TokenStore ex_AuthorizeHandler ''ISO14443'' (AuthorizeJson.IdTag \<lparr>IdTag = ''ABC123''\<rparr>)
       (world ex_sys) = (Some (''ISO14443'', ''ABC123''), None)
   \<and> fst (AuthorizeHandler_HandleCall ex_AuthorizeHandler () ''cs001''
            (Some (AuthorizeJson_ptr (Some \<lparr>IdTag = ''ABC123''\<rparr>))) ex_sys) =
       Inr (Some (AuthorizeResponseJson_ptr (Some
              \<lparr>IdTagInfo = \<lparr>AuthorizeResponseJsonIdTagInfo.Status =
                               AuthorizeResponseJsonIdTagInfoStatusAccepted\<rparr>\<rparr>)), None)
   \<and> TokenStore ex_AuthorizeHandler ''ISO14443'' (AuthorizeJson.IdTag \<lparr>IdTag = ''XYZ789''\<rparr>)
       (world ex_sys) = (None, None)
   \<and> fst (AuthorizeHandler_HandleCall ex_AuthorizeHandler () ''cs001''
            (Some (AuthorizeJson_ptr (Some \<lparr>IdTag = ''XYZ789''\<rparr>))) ex_sys) =
       Inr (Some (AuthorizeResponseJson_ptr (Some
              \<lparr>IdTagInfo = \<lparr>AuthorizeResponseJsonIdTagInfo.Status =
                               AuthorizeResponseJsonIdTagInfoStatusInvalid\<rparr>\<rparr>)), None)
   \<and> TokenStore \<lparr>TokenStore = ex_failing_FindToken\<rparr> ''ISO14443''
       (AuthorizeJson.IdTag \<lparr>IdTag = ''ABC123''\<rparr>) (world ex_sys) =
       (None, Some (ForeignError ''token store unavailable''))
   \<and> fst (AuthorizeHandler_HandleCall \<lparr>TokenStore = ex_failing_FindToken\<rparr> () ''cs001''
            (Some (AuthorizeJson_ptr (Some \<lparr>IdTag = ''ABC123''\<rparr>))) ex_sys) =
       Inr (None, Some (ForeignError ''token store unavailable''))"
proof -
  have a: "TokenStore ex_AuthorizeHandler ''ISO14443''
             (AuthorizeJson.IdTag \<lparr>IdTag = ''ABC123''\<rparr>) (world ex_sys) =
           (Some (''ISO14443'', ''ABC123''), None)"
    by (simp add: ex_AuthorizeHandler_def ex_FindToken_def ex_sys_def)
  have b: "TokenStore ex_AuthorizeHandler ''ISO14443''
             (AuthorizeJson.IdTag \<lparr>IdTag = ''XYZ789''\<rparr>) (world ex_sys) = (None, None)"
    by (simp add: ex_AuthorizeHandler_def ex_FindToken_def ex_sys_def)
  have c: "TokenStore \<lparr>TokenStore = ex_failing_FindToken\<rparr> ''ISO14443''
             (AuthorizeJson.IdTag \<lparr>IdTag = ''ABC123''\<rparr>) (world ex_sys) =
           (None, Some (ForeignError ''token store unavailable''))"
    by (simp add: ex_failing_FindToken_def)
  have ta: "fst (AuthorizeHandler_HandleCall ex_AuthorizeHandler () ''cs001''
                   (Some (AuthorizeJson_ptr (Some \<lparr>IdTag = ''ABC123''\<rparr>))) ex_sys) =
            Inr (Some (AuthorizeResponseJson_ptr (Some
                   \<lparr>IdTagInfo = \<lparr>AuthorizeResponseJsonIdTagInfo.Status =
                                    AuthorizeResponseJsonIdTagInfoStatusAccepted\<rparr>\<rparr>)), None)"
    using AuthorizeHandler_HandleCall_status [OF refl a, of "()" "''cs001''"] by auto
  have tb: "fst (AuthorizeHandler_HandleCall ex_AuthorizeHandler () ''cs001''
                   (Some (AuthorizeJson_ptr (Some \<lparr>IdTag = ''XYZ789''\<rparr>))) ex_sys) =
            Inr (Some (AuthorizeResponseJson_ptr (Some
                   \<lparr>IdTagInfo = \<lparr>AuthorizeResponseJsonIdTagInfo.Status =
                                    AuthorizeResponseJsonIdTagInfoStatusInvalid\<rparr>\<rparr>)), None)"
    using AuthorizeHandler_HandleCall_status [OF refl b, of "()" "''cs001''"] by auto
  have tc: "fst (AuthorizeHandler_HandleCall \<lparr>TokenStore = ex_failing_FindToken\<rparr> () ''cs001''
                   (Some (AuthorizeJson_ptr (Some \<lparr>IdTag = ''ABC123''\<rparr>))) ex_sys) =
            Inr (None, Some (ForeignError ''token store unavailable''))"
    using AuthorizeHandler_HandleCall_status [OF refl c, of "()" "''cs001''"] by simp
  show ?thesis
    using a ta b tb c tc by (intro conjI)
qed

end
